theory Spec2Isabelle
  imports Complex_Main "HOL-Library.Sublist"
begin

section \<open>Strings\<close>

text \<open>
  A Python \<open>str\<close> is modelled as a \<open>string\<close>: the characters of the ASCII range are
  themselves, a code point beyond it stands as its UTF-8 bytes. The three string
  operations the program uses are \<open>lower\<close>, the substring test \<open>in\<close> and \<open>strip\<close>.
  On the ASCII range \<open>lower\<close> maps \<open>A..Z\<close> to \<open>a..z\<close> and \<open>strip\<close> removes the blanks
  \<open>\t \n \v \f \r\<close>, the separators \<open>0x1c..0x1f\<close> and the space; what Python does to
  letters and blanks beyond ASCII is not modelled.
\<close>

definition lower_char :: "char \<Rightarrow> char" where
  "lower_char c =
     (case map_of (zip ''ABCDEFGHIJKLMNOPQRSTUVWXYZ'' ''abcdefghijklmnopqrstuvwxyz'') c of
        None \<Rightarrow> c
      | Some l \<Rightarrow> l)"

definition lower :: "string \<Rightarrow> string" where
  "lower s = map lower_char s"

fun startswith :: "string \<Rightarrow> string \<Rightarrow> bool" where
  "startswith s [] = True"
| "startswith [] (p # ps) = False"
| "startswith (c # cs) (p # ps) = (c = p \<and> startswith cs ps)"

text \<open>\<open>contains s p\<close> is Python's \<open>p in s\<close>: \<open>p\<close> occurs in \<open>s\<close> at some position.\<close>

fun contains :: "string \<Rightarrow> string \<Rightarrow> bool" where
  "contains [] p = startswith [] p"
| "contains (c # cs) p = (startswith (c # cs) p \<or> contains cs p)"

definition isspace :: "char \<Rightarrow> bool" where
  "isspace c \<longleftrightarrow>
     c \<in> set [CHR 0x09, CHR 0x0A, CHR 0x0B, CHR 0x0C, CHR 0x0D,
                CHR 0x1C, CHR 0x1D, CHR 0x1E, CHR 0x1F, CHR 0x20]"

definition strip :: "string \<Rightarrow> string" where
  "strip s = rev (dropWhile isspace (rev (dropWhile isspace s)))"

section \<open>Helpers\<close>

text \<open>
  \<^verbatim>\<open>
  def is_youtube_url(url: str) -> bool:
      u = (url or "").lower()
      return ("youtube.com" in u) or ("youtu.be" in u)
  \<close>
  On a string, \<open>url or ""\<close> is \<open>url\<close> itself unless \<open>url\<close> is empty, and then it is
  the empty string.
\<close>

definition is_youtube_url :: "string \<Rightarrow> bool" where
  "is_youtube_url url =
     (let u = lower (if url = [] then [] else url)
      in contains u ''youtube.com'' \<or> contains u ''youtu.be'')"

subsection \<open>Paths and the file system\<close>

text \<open>
  A \<open>pathlib.Path\<close> is modelled by its string form. \<open>Path s\<close> turns the empty string
  into \<open>.\<close>, as pathlib does, and \<open>p / name\<close> appends the separator and the name; the
  further normalisation of pathlib (doubled separators, a trailing separator, drive
  letters) is not modelled. The separator is the platform's.

  The file system maps the string form of a path to what is there. \<open>exists\<close> is
  \<open>Path.exists()\<close>.
\<close>

type_synonym path = string

datatype node = File | Dir

type_synonym filesystem = "path \<Rightarrow> node option"

definition Path :: "string \<Rightarrow> path" where
  "Path s = (if s = [] then ''.'' else s)"

definition joinpath :: "string \<Rightarrow> path \<Rightarrow> string \<Rightarrow> path" where
  "joinpath sep p name = p @ sep @ name"

definition exists :: "filesystem \<Rightarrow> path \<Rightarrow> bool" where
  "exists fs p = (fs p \<noteq> None)"

text \<open>
  What the program reads of the running process: \<open>sys._MEIPASS\<close> (\<open>None\<close> when the
  attribute is absent), \<open>sys.frozen\<close>, the names of the resolved parent directories
  of \<open>sys.executable\<close> and of \<open>__file__\<close>, and the path separator. \<open>mkdir_refused\<close>
  says for which paths the operating system refuses to create a directory
  (permissions, an ancestor that is a file).
\<close>

record platform =
  MEIPASS :: "string option"
  frozen :: bool
  executable_parent :: string
  file_parent :: string
  sep :: string
  mkdir_refused :: "path \<Rightarrow> bool"

text \<open>
  \<^verbatim>\<open>
  def app_base_dir() -> Path:
      if getattr(sys, "frozen", False):  # PyInstaller
          return Path(sys.executable).resolve().parent
      return Path(__file__).resolve().parent
  \<close>
\<close>

definition app_base_dir :: "platform \<Rightarrow> path" where
  "app_base_dir pf =
     (if frozen pf then Path (executable_parent pf) else Path (file_parent pf))"

text \<open>
  \<^verbatim>\<open>
  def find_ffmpeg_folder() -> str | None:
      candidates: list[Path] = []
      meipass = getattr(sys, "_MEIPASS", None)
      if meipass:
          candidates.append(Path(meipass))
      base = app_base_dir()
      candidates.append(base)
      candidates.append(base / "ffmpeg")
      for c in candidates:
          ffmpeg = c / "ffmpeg.exe"
          ffprobe = c / "ffprobe.exe"
          if ffmpeg.exists() and ffprobe.exists():
              return str(c)
      return None
  \<close>
  \<open>if meipass\<close> is Python's truth test: the attribute is there and is not the empty
  string. \<open>candidates\<close> builds the list, \<open>first_with_tools\<close> is the \<open>for\<close> loop; a path
  being its string form, \<open>str(c)\<close> is \<open>c\<close>.
\<close>

definition candidates :: "platform \<Rightarrow> path list" where
  "candidates pf =
     (let cs = (case MEIPASS pf of
                  None \<Rightarrow> []
                | Some meipass \<Rightarrow> if meipass \<noteq> [] then [Path meipass] else []);
          base = app_base_dir pf
      in cs @ [base] @ [joinpath (sep pf) base ''ffmpeg''])"

definition has_tools :: "platform \<Rightarrow> filesystem \<Rightarrow> path \<Rightarrow> bool" where
  "has_tools pf fs c =
     (let ffmpeg = joinpath (sep pf) c ''ffmpeg.exe'';
          ffprobe = joinpath (sep pf) c ''ffprobe.exe''
      in exists fs ffmpeg \<and> exists fs ffprobe)"

fun first_with_tools :: "platform \<Rightarrow> filesystem \<Rightarrow> path list \<Rightarrow> string option" where
  "first_with_tools pf fs [] = None"
| "first_with_tools pf fs (c # cs) =
     (if has_tools pf fs c then Some c else first_with_tools pf fs cs)"

definition find_ffmpeg_folder :: "platform \<Rightarrow> filesystem \<Rightarrow> string option" where
  "find_ffmpeg_folder pf fs = first_with_tools pf fs (candidates pf)"

subsection \<open>Python's truth test and \<open>or\<close>\<close>

text \<open>
  \<open>d.get(key)\<close> is \<open>None\<close> for a missing key; \<open>x or y\<close> is \<open>x\<close> when \<open>x\<close> is true (a
  number other than zero, a string other than the empty one) and \<open>y\<close> otherwise.
  Numbers are exact rationals: Python's integers are, and the rounding of its floats
  is not modelled.
\<close>

definition or_number :: "rat option \<Rightarrow> rat option \<Rightarrow> rat option" where
  "or_number x y = (case x of None \<Rightarrow> y | Some v \<Rightarrow> if v \<noteq> 0 then Some v else y)"

definition or_zero :: "rat option \<Rightarrow> rat" where
  "or_zero x = (case x of None \<Rightarrow> 0 | Some v \<Rightarrow> v)"

definition or_str :: "string option \<Rightarrow> string \<Rightarrow> string" where
  "or_str x y = (case x of None \<Rightarrow> y | Some v \<Rightarrow> if v \<noteq> [] then v else y)"

datatype error = ZeroDivisionError

text \<open>Python's \<open>/\<close> raises on a zero divisor.\<close>

definition truediv :: "rat \<Rightarrow> rat \<Rightarrow> error + rat" where
  "truediv a b = (if b = 0 then Inl ZeroDivisionError else Inr (a / b))"

text \<open>
  A rational \<open>m / 2^e\<close> with \<open>|m| < 2^53\<close> and \<open>e \<le> 1074\<close> is a number of the binary64
  format of Python's floats. On operands of this form whose exact quotient or product
  is of this form too, the float operation returns that exact result.
\<close>

definition binary64 :: "rat \<Rightarrow> bool" where
  "binary64 q \<longleftrightarrow> (\<exists>m e. \<bar>m\<bar> < 2 ^ 53 \<and> e \<le> (1074::nat) \<and> q = of_int m / 2 ^ e)"

subsection \<open>The hooks\<close>

text \<open>
  The dictionary the download library passes to a hook, by the keys the hooks read.
\<close>

record event =
  status :: "string option"
  total_bytes :: "rat option"
  total_bytes_estimate :: "rat option"
  downloaded_bytes :: "rat option"
  speed :: "rat option"
  eta :: "int option"
  postprocessor :: "string option"

text \<open>
  The text of the status line. \<open>Downloading pct speed eta\<close> stands for the f-string
  \<^verbatim>\<open>f"Downloading... {pct:.1f}%"\<close> followed by \<^verbatim>\<open>f" | {speed/1024/1024:.2f} MB/s"\<close> when
  \<open>speed\<close> is true (the second component, already divided) and by \<^verbatim>\<open>f" | ETA {eta}s"\<close>
  when \<open>eta\<close> is not \<open>None\<close>; the decimal rendering of the numbers is not modelled.
  The source writes the ellipsis as one character, U+2026.
\<close>

datatype status_text = Text string | Downloading rat "rat option" "int option"

definition ellipsis :: string where
  "ellipsis = [CHR 0xE2, CHR 0x80, CHR 0xA6]"

text \<open>
  \<^verbatim>\<open>
  def progress_hook(d):
      status = d.get("status")
      if status == "downloading":
          total = d.get("total_bytes") or d.get("total_bytes_estimate") or 0
          downloaded = d.get("downloaded_bytes") or 0
          pct = (downloaded / total * 100.0) if total else 0.0
          speed = d.get("speed")
          eta = d.get("eta")
          msg = f"Downloading... {pct:.1f}%"
          if speed:
              msg += f" | {speed/1024/1024:.2f} MB/s"
          if eta is not None:
              msg += f" | ETA {eta}s"
          ui_update(pct, msg)
      elif status == "finished":
          ui_update(100.0, "Download finished. Processing/merging...")
  \<close>
  The hooks are closures over \<open>ui_update\<close> and \<open>ui_note\<close>, which act on the state of
  the caller; the state is passed through.
\<close>

definition progress_hook ::
  "(rat \<Rightarrow> status_text \<Rightarrow> 's \<Rightarrow> 's) \<Rightarrow> event \<Rightarrow> 's \<Rightarrow> error + 's" where
  "progress_hook ui_update d s =
     (if status d = Some ''downloading'' then
        (let total = or_zero (or_number (total_bytes d) (total_bytes_estimate d));
             downloaded = or_zero (downloaded_bytes d)
         in case (if total \<noteq> 0
                  then (case truediv downloaded total of
                          Inl e \<Rightarrow> Inl e
                        | Inr q \<Rightarrow> Inr (q * 100))
                  else Inr 0) of
              Inl e \<Rightarrow> Inl e
            | Inr pct \<Rightarrow>
                (let shown_speed =
                       (case speed d of
                          None \<Rightarrow> None
                        | Some v \<Rightarrow> if v \<noteq> 0 then Some (v / 1024 / 1024) else None)
                 in Inr (ui_update pct (Downloading pct shown_speed (eta d)) s)))
      else if status d = Some ''finished'' then
        Inr (ui_update 100 (Text (''Download finished. Processing/merging'' @ ellipsis)) s)
      else Inr s)"

text \<open>
  \<^verbatim>\<open>
  def postprocessor_hook(d):
      status = d.get("status")
      name = d.get("postprocessor", "")
      if status == "started":
          ui_note(f"Post-processing started: {name or 'processing'}...")
      elif status == "finished":
          ui_note("Post-processing finished.")
  \<close>
\<close>

definition postprocessor_hook :: "(string \<Rightarrow> 's \<Rightarrow> 's) \<Rightarrow> event \<Rightarrow> 's \<Rightarrow> 's" where
  "postprocessor_hook ui_note d s =
     (let name = postprocessor d
      in if status d = Some ''started'' then
           ui_note (''Post-processing started: '' @ or_str name ''processing'' @ ellipsis) s
         else if status d = Some ''finished'' then
           ui_note ''Post-processing finished.'' s
         else s)"

subsection \<open>The options of the download library\<close>

text \<open>
  The options are a dictionary from option names to values; the two hook lists hold
  the closures above.
\<close>

datatype hook = progress_hook_closure | postprocessor_hook_closure

datatype opt_value = Str string | Bool bool | Num int | Hooks "hook list"

type_synonym ydl_opts = "string \<Rightarrow> opt_value option"

text \<open>
  \<open>os.path.join\<close> of two components as \<open>posixpath\<close> defines it, with the platform's
  separator; what \<open>ntpath\<close> does with drive letters is not modelled.
\<close>

definition endswith :: "string \<Rightarrow> string \<Rightarrow> bool" where
  "endswith s p = startswith (rev s) (rev p)"

definition os_path_join :: "string \<Rightarrow> string \<Rightarrow> string \<Rightarrow> string" where
  "os_path_join sp a b =
     (if startswith b sp then b
      else if a = [] \<or> endswith a sp then a @ b
      else a @ sp @ b)"

definition truthy :: "string option \<Rightarrow> bool" where
  "truthy x = (case x of None \<Rightarrow> False | Some v \<Rightarrow> v \<noteq> [])"

text \<open>
  \<^verbatim>\<open>
  def make_ydl_opts(url: str, out_dir: str, ui_update, ui_note) -> dict:
      ffmpeg_loc = find_ffmpeg_folder()
      ...
      if ffmpeg_loc:
          fmt = "bv*[ext=mp4]+ba[ext=m4a]/bv*+ba/best"
          ui_note("FFmpeg detected: Highest quality (video+audio merge) enabled.")
      else:
          fmt = "best[vcodec!=none][acodec!=none][ext=mp4]/best[vcodec!=none][acodec!=none]/best"
          ui_note("FFmpeg not detected: using single-file format (sound guaranteed, may be <=720p).")
      ydl_opts = {
          "format": fmt,
          "outtmpl": os.path.join(out_dir, "%(title)s [%(id)s].%(ext)s"),
          "noplaylist": True,
          "quiet": True,
          "no_warnings": True,
          "progress_hooks": [progress_hook],
          "postprocessor_hooks": [postprocessor_hook],
          "retries": 3,
          "fragment_retries": 3,
      }
      if ffmpeg_loc:
          ydl_opts["ffmpeg_location"] = ffmpeg_loc
          ydl_opts["merge_output_format"] = "mp4"
      return ydl_opts
  \<close>
  The result is the dictionary and the caller's state after the call of \<open>ui_note\<close>.
\<close>

definition make_ydl_opts ::
  "platform \<Rightarrow> filesystem \<Rightarrow> string \<Rightarrow> string \<Rightarrow> (rat \<Rightarrow> status_text \<Rightarrow> 's \<Rightarrow> 's) \<Rightarrow>
     (string \<Rightarrow> 's \<Rightarrow> 's) \<Rightarrow> 's \<Rightarrow> ydl_opts \<times> 's" where
  "make_ydl_opts pf fs url out_dir ui_update ui_note s =
     (let ffmpeg_loc = find_ffmpeg_folder pf fs;
          (fmt, s') =
             (if truthy ffmpeg_loc then
                (''bv*[ext=mp4]+ba[ext=m4a]/bv*+ba/best'',
                 ui_note ''FFmpeg detected: Highest quality (video+audio merge) enabled.'' s)
              else
                (''best[vcodec!=none][acodec!=none][ext=mp4]/best[vcodec!=none][acodec!=none]/best'',
                 ui_note ''FFmpeg not detected: using single-file format (sound guaranteed, may be <=720p).'' s));
          ydl_opts = [
             ''format'' \<mapsto> Str fmt,
             ''outtmpl'' \<mapsto> Str (os_path_join (sep pf) out_dir ''%(title)s [%(id)s].%(ext)s''),
             ''noplaylist'' \<mapsto> Bool True,
             ''quiet'' \<mapsto> Bool True,
             ''no_warnings'' \<mapsto> Bool True,
             ''progress_hooks'' \<mapsto> Hooks [progress_hook_closure],
             ''postprocessor_hooks'' \<mapsto> Hooks [postprocessor_hook_closure],
             ''retries'' \<mapsto> Num 3,
             ''fragment_retries'' \<mapsto> Num 3]
      in (case ffmpeg_loc of
            None \<Rightarrow> ydl_opts
          | Some loc \<Rightarrow>
              if loc \<noteq> [] then
                ydl_opts(''ffmpeg_location'' \<mapsto> Str loc, ''merge_output_format'' \<mapsto> Str ''mp4'')
              else ydl_opts,
          s'))"

section \<open>The application\<close>

text \<open>
  The state of \<open>App\<close>: the five Tk variables and the state of the download button, as
  the class has them, and what the program does to its surroundings: the error boxes
  \<open>messagebox.showerror\<close> has shown (title and message), the calls \<open>self.after(0, f)\<close>
  has queued for the event loop, the worker threads started and not yet ended (with
  their arguments), and the file system.
\<close>

datatype btn_state = normal | disabled

datatype ui_call =
    Update rat status_text
  | Note string
  | Done string
  | Error string

record app =
  url_var :: string
  out_var :: string
  status_var :: status_text
  note_var :: string
  progress_var :: rat
  btn_download :: btn_state
  errors_shown :: "(string \<times> string) list"
  after_queue :: "ui_call list"
  threads :: "(string \<times> string) list"
  files :: filesystem

text \<open>
  \<open>App.__init__\<close>: the output folder starts as \<open>str(Path.home() / "Downloads")\<close>, the
  status as \<open>Idle\<close>, and \<open>_build_ui\<close> creates the button enabled.
\<close>

definition init :: "platform \<Rightarrow> string \<Rightarrow> filesystem \<Rightarrow> app" where
  "init pf home fs =
     \<lparr>url_var = [], out_var = joinpath (sep pf) (Path home) ''Downloads'',
      status_var = Text ''Idle'', note_var = [], progress_var = 0,
      btn_download = normal, errors_shown = [], after_queue = [], threads = [],
      files = fs\<rparr>"

definition showerror :: "string \<Rightarrow> string \<Rightarrow> app \<Rightarrow> app" where
  "showerror title message a = a\<lparr>errors_shown := errors_shown a @ [(title, message)]\<rparr>"

text \<open>
  \<open>Path(out_dir).mkdir(parents=True, exist_ok=True)\<close>: a directory that is there is
  left as it is, anything else that is there raises \<open>FileExistsError\<close>, and otherwise
  the directory is created unless the operating system refuses. The ancestors that
  \<open>parents=True\<close> creates are not recorded.
\<close>

datatype os_error = FileExistsError | OSError

definition mkdir :: "platform \<Rightarrow> filesystem \<Rightarrow> path \<Rightarrow> os_error + filesystem" where
  "mkdir pf fs p =
     (case fs p of
        Some Dir \<Rightarrow> Inr fs
      | Some File \<Rightarrow> Inl FileExistsError
      | None \<Rightarrow> if mkdir_refused pf p then Inl OSError else Inr (fs(p \<mapsto> Dir)))"

text \<open>
  \<^verbatim>\<open>
  def start_download(self):
      url = self.url_var.get().strip()
      out_dir = self.out_var.get().strip()
      if not is_youtube_url(url):
          messagebox.showerror("Invalid input", "Please paste a valid YouTube URL.")
          return
      if not out_dir:
          messagebox.showerror("Invalid input", "Please choose an output folder.")
          return
      Path(out_dir).mkdir(parents=True, exist_ok=True)
      self.btn_download.config(state="disabled")
      self.progress_var.set(0.0)
      self.status_var.set("Starting...")
      self.note_var.set("")
      t = threading.Thread(target=self._download_worker, args=(url, out_dir), daemon=True)
      t.start()
  \<close>
  An exception of \<open>mkdir\<close> leaves the method at that line.
\<close>

definition start_download :: "platform \<Rightarrow> app \<Rightarrow> os_error + app" where
  "start_download pf a =
     (let url = strip (url_var a);
          out_dir = strip (out_var a)
      in if \<not> is_youtube_url url then
           Inr (showerror ''Invalid input'' ''Please paste a valid YouTube URL.'' a)
         else if out_dir = [] then
           Inr (showerror ''Invalid input'' ''Please choose an output folder.'' a)
         else
           (case mkdir pf (files a) (Path out_dir) of
              Inl e \<Rightarrow> Inl e
            | Inr fs \<Rightarrow>
                (let a1 = a\<lparr>files := fs\<rparr>;
                     a2 = a1\<lparr>btn_download := disabled\<rparr>;
                     a3 = a2\<lparr>progress_var := 0\<rparr>;
                     a4 = a3\<lparr>status_var := Text (''Starting'' @ ellipsis)\<rparr>;
                     a5 = a4\<lparr>note_var := []\<rparr>
                 in Inr (a5\<lparr>threads := threads a5 @ [(url, out_dir)]\<rparr>))))"

text \<open>
  \<^verbatim>\<open>
  def ui_update(self, pct: float, msg: str):
      self.after(0, lambda: (self.progress_var.set(pct), self.status_var.set(msg)))
  def ui_note(self, msg: str):
      self.after(0, lambda: self.note_var.set(msg))
  def ui_done(self, msg: str):
      def f():
          self.progress_var.set(100.0)
          self.status_var.set(msg)
          self.btn_download.config(state="normal")
      self.after(0, f)
  def ui_error(self, msg: str):
      def f():
          self.btn_download.config(state="normal")
          self.status_var.set("Failed.")
          messagebox.showerror("Download error", msg)
      self.after(0, f)
  \<close>
  Each helper queues its closure; \<open>run_call\<close> is what the closure does when the event
  loop calls it.
\<close>

definition after :: "ui_call \<Rightarrow> app \<Rightarrow> app" where
  "after f a = a\<lparr>after_queue := after_queue a @ [f]\<rparr>"

definition ui_update :: "rat \<Rightarrow> status_text \<Rightarrow> app \<Rightarrow> app" where
  "ui_update pct msg a = after (Update pct msg) a"

definition ui_note :: "string \<Rightarrow> app \<Rightarrow> app" where
  "ui_note msg a = after (Note msg) a"

definition ui_done :: "string \<Rightarrow> app \<Rightarrow> app" where
  "ui_done msg a = after (Done msg) a"

definition ui_error :: "string \<Rightarrow> app \<Rightarrow> app" where
  "ui_error msg a = after (Error msg) a"

fun run_call :: "ui_call \<Rightarrow> app \<Rightarrow> app" where
  "run_call (Update pct msg) a = (a\<lparr>progress_var := pct\<rparr>)\<lparr>status_var := msg\<rparr>"
| "run_call (Note msg) a = a\<lparr>note_var := msg\<rparr>"
| "run_call (Done msg) a =
     ((a\<lparr>progress_var := 100\<rparr>)\<lparr>status_var := Text msg\<rparr>)\<lparr>btn_download := normal\<rparr>"
| "run_call (Error msg) a =
     showerror ''Download error'' msg
       ((a\<lparr>btn_download := normal\<rparr>)\<lparr>status_var := Text ''Failed.''\<rparr>)"

text \<open>The event loop runs the queued calls in their order.\<close>

fun run_calls :: "ui_call list \<Rightarrow> app \<Rightarrow> app" where
  "run_calls [] a = a"
| "run_calls (f # fs) a = run_calls fs (run_call f a)"

definition mainloop_idle :: "app \<Rightarrow> app" where
  "mainloop_idle a = run_calls (after_queue a) (a\<lparr>after_queue := []\<rparr>)"

subsection \<open>The worker\<close>

text \<open>
  The download library is not part of the program. One call of
  \<open>yt_dlp.YoutubeDL(ydl_opts).extract_info(url, download=True)\<close> is modelled by what
  the program sees of it: the hooks it calls, in order, and then either the \<open>info\<close> it
  returns (\<open>None\<close>, or a dictionary, of which the program reads the title, taken to be
  a string when it is there) or the exception it raises. Of an exception the program uses whether it is an instance of
  \<open>Exception\<close> and what \<open>str\<close> makes of it.
\<close>

datatype hook_call = Progress event | Postprocessor event

record exc =
  is_Exception :: bool
  str :: string

datatype outcome = Returned "(string \<Rightarrow> string option) option" | Raised exc

record run =
  hook_calls :: "hook_call list"
  result :: outcome

type_synonym library = "ydl_opts \<Rightarrow> string \<Rightarrow> run"

definition exc_of :: "error \<Rightarrow> exc" where
  "exc_of e =
     (case e of ZeroDivisionError \<Rightarrow> \<lparr>is_Exception = True, str = ''division by zero''\<rparr>)"

text \<open>
  The library calls the hooks of the options; an exception of a hook ends the call
  of the library with that exception.
\<close>

fun run_hooks :: "hook_call list \<Rightarrow> app \<Rightarrow> app \<times> error option" where
  "run_hooks [] a = (a, None)"
| "run_hooks (Progress d # cs) a =
     (case progress_hook ui_update d a of
        Inl e \<Rightarrow> (a, Some e)
      | Inr a' \<Rightarrow> run_hooks cs a')"
| "run_hooks (Postprocessor d # cs) a = run_hooks cs (postprocessor_hook ui_note d a)"

text \<open>
  \<^verbatim>\<open>
  def _download_worker(self, url: str, out_dir: str):
      try:
          ydl_opts = make_ydl_opts(url, out_dir, self.ui_update, self.ui_note)
          with yt_dlp.YoutubeDL(ydl_opts) as ydl:
              info = ydl.extract_info(url, download=True)
          title = (info or {}).get("title", "Done")
          self.ui_done(f"Done: {title}")
      except Exception as e:
          self.ui_error(str(e))
  \<close>
  The result is the exception that leaves the method, if one does, and the state.
\<close>

definition download_worker ::
  "platform \<Rightarrow> library \<Rightarrow> string \<Rightarrow> string \<Rightarrow> app \<Rightarrow> exc option \<times> app" where
  "download_worker pf lib url out_dir a =
     (let (ydl_opts, a1) = make_ydl_opts pf (files a) url out_dir ui_update ui_note a;
          r = lib ydl_opts url;
          (a2, raised) = run_hooks (hook_calls r) a1;
          out = (case raised of Some e \<Rightarrow> Raised (exc_of e) | None \<Rightarrow> result r)
      in case out of
           Returned info \<Rightarrow>
             (let title = (case info of
                             None \<Rightarrow> ''Done''
                           | Some i \<Rightarrow> (case i ''title'' of None \<Rightarrow> ''Done'' | Some t \<Rightarrow> t))
              in (None, ui_done (''Done: '' @ title) a2))
         | Raised e \<Rightarrow>
             if is_Exception e then (None, ui_error (str e) a2) else (Some e, a2))"

subsection \<open>The download state machine\<close>

text \<open>
  What can happen to a running application, one step at a time: the user edits the
  two text fields (\<open>pick_folder\<close> sets the second), the user presses the download
  button, to which Tk reacts only while the button is enabled, a worker thread runs
  to its end against some behaviour of the library, the event loop runs the first
  queued call, and the file system changes under the program.
\<close>

inductive step :: "platform \<Rightarrow> app \<Rightarrow> app \<Rightarrow> bool" for pf :: platform where
  edit_url: "step pf a (a\<lparr>url_var := u\<rparr>)"
| pick_folder: "step pf a (a\<lparr>out_var := folder\<rparr>)"
| press: "btn_download a = normal \<Longrightarrow> start_download pf a = Inr a' \<Longrightarrow> step pf a a'"
| worker_ends:
    "(url, out_dir) \<in> set (threads a) \<Longrightarrow> download_worker pf lib url out_dir a = (e, a') \<Longrightarrow>
     step pf a (a'\<lparr>threads := remove1 (url, out_dir) (threads a')\<rparr>)"
| idle: "after_queue a = f # fs \<Longrightarrow> step pf a (run_call f (a\<lparr>after_queue := fs\<rparr>))"
| outside: "step pf a (a\<lparr>files := fs'\<rparr>)"

inductive reachable :: "platform \<Rightarrow> app \<Rightarrow> bool" for pf :: platform where
  start: "reachable pf (init pf home fs)"
| next_step: "reachable pf a \<Longrightarrow> step pf a a' \<Longrightarrow> reachable pf a'"

text \<open>The queued calls that end a download: the closures of \<open>ui_done\<close> and \<open>ui_error\<close>.\<close>

fun finishing :: "ui_call \<Rightarrow> bool" where
  "finishing (Done msg) = True"
| "finishing (Error msg) = True"
| "finishing (Update pct msg) = False"
| "finishing (Note msg) = False"

text \<open>
  The invariant of the state machine: the running threads and the queued calls that
  end a download are at most one together, and while the button is enabled there is
  none of either.
\<close>

definition one_at_a_time :: "app \<Rightarrow> bool" where
  "one_at_a_time a \<longleftrightarrow>
     length (threads a) + length (filter finishing (after_queue a)) \<le> 1 \<and>
     (btn_download a = normal \<longrightarrow> threads a = [] \<and> filter finishing (after_queue a) = [])"

section \<open>Reading a format expression\<close>


type_synonym selector = "string \<times> string list"



text \<open>
  Which tracks a selector name admits is fixed by the download library, which is not
  part of the program; it is a parameter here. \<open>Both\<close>: only formats with a video and
  an audio track; \<open>Video_maybe_audio\<close>: formats with a video track; \<open>Video_only\<close> and
  \<open>Audio_only\<close>: formats with that track and not the other; \<open>Unknown\<close>: no promise.
\<close>

datatype tracks = Both | Video_maybe_audio | Video_only | Audio_only | Unknown

type_synonym selector_names = "string \<Rightarrow> tracks"

text \<open>
  A stream is sure to carry an audio track when its name admits only formats with
  one or its filters demand an audio codec (\<open>acodec!=none\<close>), and likewise for video.
\<close>

definition has_audio :: "selector_names \<Rightarrow> selector \<Rightarrow> bool" where
  "has_audio names sel =
     (case sel of (name, fs) \<Rightarrow>
        names name = Both \<or> names name = Audio_only \<or> ''acodec!=none'' \<in> set fs)"

definition has_video :: "selector_names \<Rightarrow> selector \<Rightarrow> bool" where
  "has_video names sel =
     (case sel of (name, fs) \<Rightarrow>
        names name = Both \<or> names name = Video_maybe_audio \<or> names name = Video_only \<or>
        ''vcodec!=none'' \<in> set fs)"


definition requires_both_tracks :: "selector_names \<Rightarrow> selector list \<Rightarrow> bool" where
  "requires_both_tracks names alt =
     (case alt of [sel] \<Rightarrow> has_video names sel \<and> has_audio names sel | _ \<Rightarrow> False)"



section \<open>Example inputs\<close>

text \<open>
  A packaged run on a POSIX-style platform: the temporary extraction directory holds
  only one of the two tools, the program's directory and its \<open>ffmpeg\<close> subfolder hold
  both. A second file system holds one tool only, and an application is started on it.
\<close>

definition example_platform :: platform where
  "example_platform =
     \<lparr>MEIPASS = Some ''/tmp/_MEI42'', frozen = True, executable_parent = ''/opt/app'',
      file_parent = ''/src'', sep = ''/'', mkdir_refused = (\<lambda>p. False)\<rparr>"

definition fs_with_ffmpeg :: filesystem where
  "fs_with_ffmpeg =
     map_of [(''/tmp/_MEI42/ffmpeg.exe'', File),
             (''/opt/app/ffmpeg.exe'', File), (''/opt/app/ffprobe.exe'', File),
             (''/opt/app/ffmpeg/ffmpeg.exe'', File), (''/opt/app/ffmpeg/ffprobe.exe'', File)]"

definition fs_without_ffmpeg :: filesystem where
  "fs_without_ffmpeg = map_of [(''/opt/app/ffmpeg.exe'', File)]"

definition example_app :: app where
  "example_app = init example_platform ''/home/u'' fs_without_ffmpeg"

definition example_event :: event where
  "example_event =
     \<lparr>status = Some ''downloading'', total_bytes = Some 200, total_bytes_estimate = None,
      downloaded_bytes = Some 50, speed = None, eta = None, postprocessor = None\<rparr>"

definition unknown_total_event :: event where
  "unknown_total_event =
     \<lparr>status = Some ''downloading'', total_bytes = None, total_bytes_estimate = Some 0,
      downloaded_bytes = Some 50, speed = Some 2097152, eta = Some 7, postprocessor = None\<rparr>"

text \<open>
  Two behaviours of the library: one calls the progress hook once and raises an
  \<open>Exception\<close>, as for a video that is not available; the other raises
  \<open>SystemExit(1)\<close>, which is not an \<open>Exception\<close>. An application in which the user has
  typed a URL, and the same after \<open>start_download\<close>.
\<close>

definition failing_library :: library where
  "failing_library opts url =
     \<lparr>hook_calls = [Progress example_event],
      result = Raised \<lparr>is_Exception = True, str = ''ERROR: Video unavailable''\<rparr>\<rparr>"

definition exiting_library :: library where
  "exiting_library opts url =
     \<lparr>hook_calls = [], result = Raised \<lparr>is_Exception = False, str = ''1''\<rparr>\<rparr>"

definition typed_app :: app where
  "typed_app = example_app\<lparr>url_var := '' https://youtu.be/abc123 ''\<rparr>"

definition running_app :: app where
  "running_app =
     typed_app\<lparr>status_var := Text (''Starting'' @ ellipsis), btn_download := disabled,
       threads := [(''https://youtu.be/abc123'', ''/home/u/Downloads'')],
       files := fs_without_ffmpeg(''/home/u/Downloads'' \<mapsto> Dir)\<rparr>"

section \<open>The URL validator\<close>

lemma startswith_prefix: "startswith s p \<longleftrightarrow> prefix p s"
  by (induction s p rule: startswith.induct) auto

lemma contains_sublist: "contains s p \<longleftrightarrow> sublist p s"
proof (induction s)
  case Nil
  then show ?case by (cases p) auto
next
  case (Cons c cs)
  then show ?case
    by (cases p) (auto simp: startswith_prefix sublist_Cons_right)
qed

text \<open>
  C3. For every string \<open>url\<close>, \<open>is_youtube_url url\<close> is true if and only if the
  lowercased \<open>url\<close> has \<open>youtube.com\<close> or \<open>youtu.be\<close> as a substring, that is, the
  lowercased \<open>url\<close> is some text, then one of the two names, then some text.
\<close>

theorem is_youtube_url_iff:
  "is_youtube_url url \<longleftrightarrow>
     sublist ''youtube.com'' (lower url) \<or> sublist ''youtu.be'' (lower url)"
  by (simp add: is_youtube_url_def contains_sublist Let_def)

theorem is_youtube_url_iff_witness:
  "is_youtube_url ''https://YouTu.be/abc123'' \<and>
   sublist ''youtu.be'' (lower ''https://YouTu.be/abc123'') \<and>
   \<not> is_youtube_url ''https://vimeo.com/1'' \<and>
   \<not> sublist ''youtube.com'' (lower ''https://vimeo.com/1'')"
  using is_youtube_url_iff [of "''https://YouTu.be/abc123''"]
    is_youtube_url_iff [of "''https://vimeo.com/1''"]
  by (simp add: is_youtube_url_def lower_def lower_char_def contains_sublist [symmetric])

section \<open>The muxer probe\<close>



lemma first_with_tools_mem: "first_with_tools pf fs cs = Some c \<Longrightarrow> c \<in> set cs"
  by (induction cs) (auto split: if_splits)

lemma candidates_nonempty: "c \<in> set (candidates pf) \<Longrightarrow> c \<noteq> []"
  by (auto simp: candidates_def Let_def Path_def app_base_dir_def joinpath_def
      split: option.splits if_splits)

lemma find_ffmpeg_folder_nonempty: "find_ffmpeg_folder pf fs = Some loc \<Longrightarrow> loc \<noteq> []"
  unfolding find_ffmpeg_folder_def
  by (blast dest: first_with_tools_mem candidates_nonempty)

lemma example_found: "find_ffmpeg_folder example_platform fs_with_ffmpeg = Some ''/opt/app''"
  by (simp add: find_ffmpeg_folder_def candidates_def example_platform_def fs_with_ffmpeg_def
      has_tools_def joinpath_def Path_def app_base_dir_def exists_def)

lemma example_not_found: "find_ffmpeg_folder example_platform fs_without_ffmpeg = None"
  by (simp add: find_ffmpeg_folder_def candidates_def example_platform_def fs_without_ffmpeg_def
      has_tools_def joinpath_def Path_def app_base_dir_def exists_def)

lemma example_nothing_found: "find_ffmpeg_folder example_platform Map.empty = None"
  by (simp add: find_ffmpeg_folder_def candidates_def example_platform_def
      has_tools_def joinpath_def Path_def app_base_dir_def exists_def)



section \<open>The options\<close>

lemma make_ydl_opts_found:
  assumes "find_ffmpeg_folder pf fs = Some loc"
  shows "make_ydl_opts pf fs url out_dir upd note s =
     ([''format'' \<mapsto> Str ''bv*[ext=mp4]+ba[ext=m4a]/bv*+ba/best'',
       ''outtmpl'' \<mapsto> Str (os_path_join (sep pf) out_dir ''%(title)s [%(id)s].%(ext)s''),
       ''noplaylist'' \<mapsto> Bool True,
       ''quiet'' \<mapsto> Bool True,
       ''no_warnings'' \<mapsto> Bool True,
       ''progress_hooks'' \<mapsto> Hooks [progress_hook_closure],
       ''postprocessor_hooks'' \<mapsto> Hooks [postprocessor_hook_closure],
       ''retries'' \<mapsto> Num 3,
       ''fragment_retries'' \<mapsto> Num 3,
       ''ffmpeg_location'' \<mapsto> Str loc,
       ''merge_output_format'' \<mapsto> Str ''mp4''],
      note ''FFmpeg detected: Highest quality (video+audio merge) enabled.'' s)"
proof -
  have "loc \<noteq> []" using assms by (rule find_ffmpeg_folder_nonempty)
  then show ?thesis
    using assms by (simp add: make_ydl_opts_def truthy_def)
qed

lemma make_ydl_opts_not_found:
  assumes "find_ffmpeg_folder pf fs = None"
  shows "make_ydl_opts pf fs url out_dir upd note s =
     ([''format'' \<mapsto> Str ''best[vcodec!=none][acodec!=none][ext=mp4]/best[vcodec!=none][acodec!=none]/best'',
       ''outtmpl'' \<mapsto> Str (os_path_join (sep pf) out_dir ''%(title)s [%(id)s].%(ext)s''),
       ''noplaylist'' \<mapsto> Bool True,
       ''quiet'' \<mapsto> Bool True,
       ''no_warnings'' \<mapsto> Bool True,
       ''progress_hooks'' \<mapsto> Hooks [progress_hook_closure],
       ''postprocessor_hooks'' \<mapsto> Hooks [postprocessor_hook_closure],
       ''retries'' \<mapsto> Num 3,
       ''fragment_retries'' \<mapsto> Num 3],
      note ''FFmpeg not detected: using single-file format (sound guaranteed, may be <=720p).'' s)"
  using assms by (simp add: make_ydl_opts_def truthy_def)

text \<open>
  C5. The options hold \<open>ffmpeg_location\<close> (the location the probe returned) and
  \<open>merge_output_format\<close> (\<open>mp4\<close>) when the probe returns a location; when it returns
  nothing they hold neither, and the note that FFmpeg was not detected is emitted.
\<close>

theorem make_ydl_opts_muxer_options:
  "(case find_ffmpeg_folder pf fs of
      Some loc \<Rightarrow>
        fst (make_ydl_opts pf fs url out_dir upd note s) ''ffmpeg_location'' = Some (Str loc) \<and>
        fst (make_ydl_opts pf fs url out_dir upd note s) ''merge_output_format'' =
          Some (Str ''mp4'')
    | None \<Rightarrow>
        fst (make_ydl_opts pf fs url out_dir upd note s) ''ffmpeg_location'' = None \<and>
        fst (make_ydl_opts pf fs url out_dir upd note s) ''merge_output_format'' = None \<and>
        snd (make_ydl_opts pf fs url out_dir upd note s) =
          note ''FFmpeg not detected: using single-file format (sound guaranteed, may be <=720p).'' s)"
  by (cases "find_ffmpeg_folder pf fs") (simp_all add: make_ydl_opts_found make_ydl_opts_not_found)

theorem make_ydl_opts_muxer_options_witness:
  "fst (make_ydl_opts example_platform fs_with_ffmpeg ''https://youtu.be/abc123''
          ''/home/u/Downloads'' ui_update ui_note example_app) ''ffmpeg_location'' =
     Some (Str ''/opt/app'') \<and>
   fst (make_ydl_opts example_platform fs_with_ffmpeg ''https://youtu.be/abc123''
          ''/home/u/Downloads'' ui_update ui_note example_app) ''merge_output_format'' =
     Some (Str ''mp4'') \<and>
   fst (make_ydl_opts example_platform fs_without_ffmpeg ''https://youtu.be/abc123''
          ''/home/u/Downloads'' ui_update ui_note example_app) ''ffmpeg_location'' = None \<and>
   fst (make_ydl_opts example_platform fs_without_ffmpeg ''https://youtu.be/abc123''
          ''/home/u/Downloads'' ui_update ui_note example_app) ''merge_output_format'' = None \<and>
   snd (make_ydl_opts example_platform fs_without_ffmpeg ''https://youtu.be/abc123''
          ''/home/u/Downloads'' ui_update ui_note example_app) =
     ui_note ''FFmpeg not detected: using single-file format (sound guaranteed, may be <=720p).''
       example_app"
  using make_ydl_opts_muxer_options [of example_platform fs_with_ffmpeg
      "''https://youtu.be/abc123''" "''/home/u/Downloads''" ui_update ui_note example_app]
    make_ydl_opts_muxer_options [of example_platform fs_without_ffmpeg
      "''https://youtu.be/abc123''" "''/home/u/Downloads''" ui_update ui_note example_app]
  by (simp add: example_found example_not_found)

text \<open>
  C10. The \<open>format\<close> entry depends only on whether the probe found a muxer: two calls
  under probe outcomes that are both a location or both nothing choose the same
  expression, whatever the urls, the output directories, the callbacks and the
  states of the callers.
\<close>

theorem format_independent_of_request:
  assumes "find_ffmpeg_folder pf fs = None \<longleftrightarrow> find_ffmpeg_folder pf' fs' = None"
  shows "fst (make_ydl_opts pf fs url out_dir upd note s) ''format'' =
         fst (make_ydl_opts pf' fs' url' out_dir' upd' note' s') ''format''"
  using assms
  by (cases "find_ffmpeg_folder pf fs"; cases "find_ffmpeg_folder pf' fs'")
     (simp_all add: make_ydl_opts_found make_ydl_opts_not_found)

theorem format_independent_of_request_witness:
  "find_ffmpeg_folder example_platform fs_without_ffmpeg = None \<and>
   find_ffmpeg_folder example_platform Map.empty = None \<and>
   fst (make_ydl_opts example_platform fs_without_ffmpeg ''https://youtu.be/abc123''
          ''/home/u/Downloads'' ui_update ui_note example_app) ''format'' =
   fst (make_ydl_opts example_platform Map.empty ''https://www.youtube.com/watch?v=xyz''
          ''/tmp'' ui_update ui_note (example_app\<lparr>note_var := ''x''\<rparr>)) ''format''"
  using format_independent_of_request [of example_platform fs_without_ffmpeg example_platform
      Map.empty "''https://youtu.be/abc123''" "''/home/u/Downloads''" ui_update ui_note example_app
      "''https://www.youtube.com/watch?v=xyz''" "''/tmp''" ui_update ui_note
      "example_app\<lparr>note_var := ''x''\<rparr>"]
  by (simp add: example_not_found example_nothing_found)

section \<open>The progress hook\<close>

lemma progress_hook_downloading:
  assumes "status d = Some ''downloading''"
  shows "progress_hook upd d s =
     (let total = or_zero (or_number (total_bytes d) (total_bytes_estimate d));
          pct = (if total \<noteq> 0 then or_zero (downloaded_bytes d) / total * 100 else 0)
      in Inr (upd pct
           (Downloading pct
              (case speed d of None \<Rightarrow> None
               | Some v \<Rightarrow> if v \<noteq> 0 then Some (v / 1024 / 1024) else None)
              (eta d)) s))"
  using assms by (simp add: progress_hook_def truediv_def Let_def)

lemma progress_hook_total: "progress_hook upd d s \<noteq> Inl e"
  by (simp add: progress_hook_def truediv_def Let_def)



text \<open>
  The numbers of the example, 50 / 200 * 100, and its intermediate results are
  binary64 numbers, so Python's float arithmetic computes it without rounding.
\<close>

lemma binary64_int: "\<bar>m\<bar> < 2 ^ 53 \<Longrightarrow> binary64 (of_int m)"
  unfolding binary64_def by (intro exI [of _ m] exI [of _ 0]) simp

lemma binary64_quarter: "binary64 (1 / 4)"
  unfolding binary64_def by (intro exI [of _ 1] exI [of _ 2]) simp

lemma progress_example_exact:
  "binary64 50 \<and> binary64 200 \<and> binary64 (50 / 200) \<and> binary64 100 \<and>
   binary64 (50 / 200 * 100)"
  using binary64_int [of 50] binary64_int [of 200] binary64_int [of 100] binary64_int [of 25]
    binary64_quarter
  by simp

text \<open>
  C9. For an event with status \<open>downloading\<close> in which \<open>total_bytes\<close> and
  \<open>total_bytes_estimate\<close> are each missing or zero, the hook passes 0 to the UI
  updater; and for no event at all does the hook raise \<open>ZeroDivisionError\<close>.
\<close>

theorem progress_hook_no_division_by_zero:
  "(status d = Some ''downloading'' \<and>
    (total_bytes d = None \<or> total_bytes d = Some 0) \<and>
    (total_bytes_estimate d = None \<or> total_bytes_estimate d = Some 0) \<longrightarrow>
      (\<exists>msg. progress_hook upd d s = Inr (upd 0 msg s))) \<and>
   progress_hook upd d s \<noteq> Inl ZeroDivisionError"
  by (auto simp: progress_hook_downloading progress_hook_total or_number_def or_zero_def Let_def)

theorem progress_hook_no_division_by_zero_witness:
  "status unknown_total_event = Some ''downloading'' \<and>
   total_bytes unknown_total_event = None \<and>
   total_bytes_estimate unknown_total_event = Some 0 \<and>
   progress_hook ui_update unknown_total_event example_app =
     Inr (ui_update 0 (Downloading 0 (Some 2) (Some 7)) example_app)"
  using progress_hook_no_division_by_zero [of unknown_total_event ui_update example_app]
  by (simp add: unknown_total_event_def progress_hook_def truediv_def or_number_def or_zero_def)

section \<open>The worker\<close>

lemma progress_hook_queue:
  "\<exists>q. progress_hook ui_update d a = Inr (a\<lparr>after_queue := after_queue a @ q\<rparr>) \<and>
       filter finishing q = []"
proof -
  consider "status d = Some ''downloading''"
    | "status d \<noteq> Some ''downloading''" "status d = Some ''finished''"
    | "status d \<noteq> Some ''downloading''" "status d \<noteq> Some ''finished''" by blast
  then show ?thesis
  proof cases
    case 1
    then obtain pct msg where "progress_hook ui_update d a = Inr (ui_update pct msg a)"
      by (simp add: progress_hook_downloading Let_def)
    then have "progress_hook ui_update d a = Inr (a\<lparr>after_queue := after_queue a @ [Update pct msg]\<rparr>)"
      by (simp add: ui_update_def after_def)
    then show ?thesis by (intro exI [of _ "[Update pct msg]"]) simp
  next
    case 2
    then obtain pct msg where "progress_hook ui_update d a = Inr (ui_update pct msg a)"
      by (auto simp: progress_hook_def)
    then have "progress_hook ui_update d a = Inr (a\<lparr>after_queue := after_queue a @ [Update pct msg]\<rparr>)"
      by (simp add: ui_update_def after_def)
    then show ?thesis by (intro exI [of _ "[Update pct msg]"]) simp
  next
    case 3
    then have "progress_hook ui_update d a = Inr (a\<lparr>after_queue := after_queue a @ []\<rparr>)"
      by (simp add: progress_hook_def)
    then show ?thesis by (intro exI [of _ "[]"]) simp
  qed
qed

lemma postprocessor_hook_queue:
  "\<exists>q. postprocessor_hook ui_note d a = a\<lparr>after_queue := after_queue a @ q\<rparr> \<and>
       filter finishing q = []"
proof -
  consider "status d = Some ''started''"
    | "status d \<noteq> Some ''started''" "status d = Some ''finished''"
    | "status d \<noteq> Some ''started''" "status d \<noteq> Some ''finished''" by blast
  then show ?thesis
  proof cases
    case 1
    then obtain msg where "postprocessor_hook ui_note d a = ui_note msg a"
      by (auto simp: postprocessor_hook_def Let_def)
    then have "postprocessor_hook ui_note d a = a\<lparr>after_queue := after_queue a @ [Note msg]\<rparr>"
      by (simp add: ui_note_def after_def)
    then show ?thesis by (intro exI [of _ "[Note msg]"]) simp
  next
    case 2
    then obtain msg where "postprocessor_hook ui_note d a = ui_note msg a"
      by (auto simp: postprocessor_hook_def Let_def)
    then have "postprocessor_hook ui_note d a = a\<lparr>after_queue := after_queue a @ [Note msg]\<rparr>"
      by (simp add: ui_note_def after_def)
    then show ?thesis by (intro exI [of _ "[Note msg]"]) simp
  next
    case 3
    then have "postprocessor_hook ui_note d a = a\<lparr>after_queue := after_queue a @ []\<rparr>"
      by (simp add: postprocessor_hook_def Let_def)
    then show ?thesis by (intro exI [of _ "[]"]) simp
  qed
qed

lemma run_hooks_queue:
  "\<exists>q. run_hooks cs a = (a\<lparr>after_queue := after_queue a @ q\<rparr>, None) \<and> filter finishing q = []"
proof (induction cs arbitrary: a)
  case Nil
  show ?case by (intro exI [of _ "[]"]) simp
next
  case (Cons c cs)
  show ?case
  proof (cases c)
    case (Progress d)
    obtain q1 where q1: "progress_hook ui_update d a = Inr (a\<lparr>after_queue := after_queue a @ q1\<rparr>)"
      "filter finishing q1 = []"
      using progress_hook_queue by blast
    obtain q2 where q2: "run_hooks cs (a\<lparr>after_queue := after_queue a @ q1\<rparr>) =
        (a\<lparr>after_queue := after_queue a @ q1\<rparr>\<lparr>after_queue :=
            after_queue (a\<lparr>after_queue := after_queue a @ q1\<rparr>) @ q2\<rparr>, None)"
      "filter finishing q2 = []"
      using Cons.IH by blast
    show ?thesis
      using Progress q1 q2 by (intro exI [of _ "q1 @ q2"]) simp
  next
    case (Postprocessor d)
    obtain q1 where q1: "postprocessor_hook ui_note d a = a\<lparr>after_queue := after_queue a @ q1\<rparr>"
      "filter finishing q1 = []"
      using postprocessor_hook_queue by blast
    obtain q2 where q2: "run_hooks cs (a\<lparr>after_queue := after_queue a @ q1\<rparr>) =
        (a\<lparr>after_queue := after_queue a @ q1\<rparr>\<lparr>after_queue :=
            after_queue (a\<lparr>after_queue := after_queue a @ q1\<rparr>) @ q2\<rparr>, None)"
      "filter finishing q2 = []"
      using Cons.IH by blast
    show ?thesis
      using Postprocessor q1 q2 by (intro exI [of _ "q1 @ q2"]) simp
  qed
qed

lemma make_ydl_opts_queue:
  "\<exists>msg. snd (make_ydl_opts pf fs url out_dir ui_update ui_note a) =
      a\<lparr>after_queue := after_queue a @ [Note msg]\<rparr>"
  by (cases "truthy (find_ffmpeg_folder pf fs)")
     (auto simp: make_ydl_opts_def ui_note_def after_def Let_def)

text \<open>What the worker does with an outcome of the library, after the hooks.\<close>

lemma download_worker_cases:
  fixes pf lib url out_dir a
  defines "opts \<equiv> fst (make_ydl_opts pf (files a) url out_dir ui_update ui_note a)"
  shows "\<exists>q. filter finishing q = [] \<and>
     download_worker pf lib url out_dir a =
       (case result (lib opts url) of
          Returned info \<Rightarrow>
            (None, a\<lparr>after_queue := after_queue a @ q @
               [Done (''Done: '' @ (case info of None \<Rightarrow> ''Done''
                  | Some i \<Rightarrow> (case i ''title'' of None \<Rightarrow> ''Done'' | Some t \<Rightarrow> t)))]\<rparr>)
        | Raised e \<Rightarrow>
            if is_Exception e
            then (None, a\<lparr>after_queue := after_queue a @ q @ [Error (str e)]\<rparr>)
            else (Some e, a\<lparr>after_queue := after_queue a @ q\<rparr>))"
proof -
  obtain o1 a1 where m: "make_ydl_opts pf (files a) url out_dir ui_update ui_note a = (o1, a1)"
    by (cases "make_ydl_opts pf (files a) url out_dir ui_update ui_note a")
  then have o1: "o1 = opts" by (simp add: opts_def)
  obtain msg where a1: "a1 = a\<lparr>after_queue := after_queue a @ [Note msg]\<rparr>"
    using make_ydl_opts_queue [of pf "files a" url out_dir a] m by auto
  obtain q2 where q2: "run_hooks (hook_calls (lib opts url)) a1 =
      (a1\<lparr>after_queue := after_queue a1 @ q2\<rparr>, None)" "filter finishing q2 = []"
    using run_hooks_queue by blast
  have a2: "a1\<lparr>after_queue := after_queue a1 @ q2\<rparr> =
      a\<lparr>after_queue := after_queue a @ (Note msg # q2)\<rparr>"
    by (simp add: a1)
  show ?thesis
    apply (rule exI [of _ "Note msg # q2"])
    apply (simp add: q2(2))
    apply (simp add: download_worker_def m o1 q2(1) a2 Let_def ui_done_def ui_error_def after_def
        split: outcome.splits option.splits)
    done
qed


lemma run_calls_append: "run_calls (xs @ ys) a = run_calls ys (run_calls xs a)"
  by (induction xs arbitrary: a) auto

lemma mainloop_idle_Error:
  assumes "after_queue a = q @ [Error msg]"
  shows "btn_download (mainloop_idle a) = normal"
    and "status_var (mainloop_idle a) = Text ''Failed.''"
    and "errors_shown (mainloop_idle a) \<noteq> []"
    and "last (errors_shown (mainloop_idle a)) = (''Download error'', msg)"
    and "after_queue (mainloop_idle a) = after_queue (run_calls q (a\<lparr>after_queue := []\<rparr>))"
  using assms by (simp_all add: mainloop_idle_def run_calls_append showerror_def)

text \<open>
  C4, as amended. When the library raises an exception that is an instance of
  \<open>Exception\<close>, the worker returns without an exception, having queued the call of
  \<open>ui_error\<close> with the string form of the exception as the last call; once the event
  loop has run the queue, the download button is enabled, the status is \<open>Failed.\<close>
  and the last error box shown is \<open>Download error\<close> with that string. When the
  exception is not an instance of \<open>Exception\<close>, it leaves the worker, and the worker
  has queued no call that ends the download.
\<close>

theorem download_worker_catches_Exception:
  assumes "result (lib (fst (make_ydl_opts pf (files a) url out_dir ui_update ui_note a)) url) =
             Raised e"
  shows "(is_Exception e \<longrightarrow>
           (\<exists>a'. download_worker pf lib url out_dir a = (None, a') \<and>
                 (\<exists>q. after_queue a' = after_queue a @ q @ [Error (str e)]) \<and>
                 btn_download (mainloop_idle a') = normal \<and>
                 status_var (mainloop_idle a') = Text ''Failed.'' \<and>
                 errors_shown (mainloop_idle a') \<noteq> [] \<and>
                 last (errors_shown (mainloop_idle a')) = (''Download error'', str e))) \<and>
         (\<not> is_Exception e \<longrightarrow>
           (\<exists>a'. download_worker pf lib url out_dir a = (Some e, a') \<and>
                 filter finishing (after_queue a') = filter finishing (after_queue a)))"
proof -
  obtain q where q: "filter finishing q = []"
    and w: "download_worker pf lib url out_dir a =
       (if is_Exception e
        then (None, a\<lparr>after_queue := after_queue a @ q @ [Error (str e)]\<rparr>)
        else (Some e, a\<lparr>after_queue := after_queue a @ q\<rparr>))"
    using download_worker_cases [of pf lib url out_dir a] assms by auto
  show ?thesis
  proof (intro conjI impI)
    assume e: "is_Exception e"
    let ?a' = "a\<lparr>after_queue := after_queue a @ q @ [Error (str e)]\<rparr>"
    have aq: "after_queue ?a' = (after_queue a @ q) @ [Error (str e)]" by simp
    show "\<exists>a'. download_worker pf lib url out_dir a = (None, a') \<and>
                 (\<exists>q. after_queue a' = after_queue a @ q @ [Error (str e)]) \<and>
                 btn_download (mainloop_idle a') = normal \<and>
                 status_var (mainloop_idle a') = Text ''Failed.'' \<and>
                 errors_shown (mainloop_idle a') \<noteq> [] \<and>
                 last (errors_shown (mainloop_idle a')) = (''Download error'', str e)"
      apply (rule exI [of _ ?a'])
      apply (intro conjI)
           apply (simp add: w e)
          apply (rule exI [of _ q], simp)
         apply (rule mainloop_idle_Error(1) [OF aq])
        apply (rule mainloop_idle_Error(2) [OF aq])
       apply (rule mainloop_idle_Error(3) [OF aq])
      apply (rule mainloop_idle_Error(4) [OF aq])
      done
  next
    assume e: "\<not> is_Exception e"
    show "\<exists>a'. download_worker pf lib url out_dir a = (Some e, a') \<and>
                 filter finishing (after_queue a') = filter finishing (after_queue a)"
      by (rule exI [of _ "a\<lparr>after_queue := after_queue a @ q\<rparr>"]) (simp add: w e q)
  qed
qed

lemma example_running_files_not_found:
  "find_ffmpeg_folder example_platform (files running_app) = None"
  by (simp add: find_ffmpeg_folder_def candidates_def example_platform_def fs_without_ffmpeg_def
      has_tools_def joinpath_def Path_def app_base_dir_def exists_def running_app_def)

lemma running_app_fields:
  "after_queue running_app = []" "btn_download running_app = disabled"
  "errors_shown running_app = []"
  by (simp_all add: running_app_def typed_app_def example_app_def init_def)

lemma worker_failing_example:
  "download_worker example_platform failing_library ''https://youtu.be/abc123''
      ''/home/u/Downloads'' running_app =
     (None, running_app\<lparr>after_queue :=
        [Note ''FFmpeg not detected: using single-file format (sound guaranteed, may be <=720p).'',
         Update 25 (Downloading 25 None None),
         Error ''ERROR: Video unavailable'']\<rparr>)"
  by (simp add: download_worker_def make_ydl_opts_not_found [OF example_running_files_not_found]
      failing_library_def progress_hook_downloading example_event_def or_number_def or_zero_def
      ui_update_def ui_note_def ui_error_def after_def running_app_fields)

lemma worker_exiting_example:
  "download_worker example_platform exiting_library ''https://youtu.be/abc123''
      ''/home/u/Downloads'' running_app =
     (Some \<lparr>is_Exception = False, str = ''1''\<rparr>, running_app\<lparr>after_queue :=
        [Note ''FFmpeg not detected: using single-file format (sound guaranteed, may be <=720p).'']\<rparr>)"
  by (simp add: download_worker_def make_ydl_opts_not_found [OF example_running_files_not_found]
      exiting_library_def ui_note_def after_def running_app_fields)

theorem download_worker_catches_Exception_witness:
  "result (failing_library
      (fst (make_ydl_opts example_platform (files running_app) ''https://youtu.be/abc123''
              ''/home/u/Downloads'' ui_update ui_note running_app)) ''https://youtu.be/abc123'') =
     Raised \<lparr>is_Exception = True, str = ''ERROR: Video unavailable''\<rparr> \<and>
   fst (download_worker example_platform failing_library ''https://youtu.be/abc123''
      ''/home/u/Downloads'' running_app) = None \<and>
   btn_download (mainloop_idle (snd (download_worker example_platform failing_library
      ''https://youtu.be/abc123'' ''/home/u/Downloads'' running_app))) = normal \<and>
   last (errors_shown (mainloop_idle (snd (download_worker example_platform failing_library
      ''https://youtu.be/abc123'' ''/home/u/Downloads'' running_app)))) =
     (''Download error'', ''ERROR: Video unavailable'')"
  using download_worker_catches_Exception [of failing_library example_platform running_app
      "''https://youtu.be/abc123''" "''/home/u/Downloads''"
      "\<lparr>is_Exception = True, str = ''ERROR: Video unavailable''\<rparr>"]
  by (auto simp: failing_library_def)

text \<open>
  C4, as stated, fails: \<open>SystemExit\<close> raised by the library leaves the worker, and after
  the event loop has run the queue the button is still disabled and no error box has
  been shown.
\<close>

theorem download_worker_propagates_SystemExit:
  "fst (download_worker example_platform exiting_library ''https://youtu.be/abc123''
      ''/home/u/Downloads'' running_app) = Some \<lparr>is_Exception = False, str = ''1''\<rparr> \<and>
   btn_download (mainloop_idle (snd (download_worker example_platform exiting_library
      ''https://youtu.be/abc123'' ''/home/u/Downloads'' running_app))) = disabled \<and>
   errors_shown (mainloop_idle (snd (download_worker example_platform exiting_library
      ''https://youtu.be/abc123'' ''/home/u/Downloads'' running_app))) = []"
  by (simp add: worker_exiting_example mainloop_idle_def running_app_fields)

section \<open>Starting a download\<close>

lemma start_download_invalid_url:
  "\<not> is_youtube_url (strip (url_var a)) \<Longrightarrow>
   start_download pf a =
     Inr (a\<lparr>errors_shown := errors_shown a @
            [(''Invalid input'', ''Please paste a valid YouTube URL.'')]\<rparr>)"
  by (simp add: start_download_def showerror_def Let_def)

lemma start_download_no_folder:
  "is_youtube_url (strip (url_var a)) \<Longrightarrow> strip (out_var a) = [] \<Longrightarrow>
   start_download pf a =
     Inr (a\<lparr>errors_shown := errors_shown a @
            [(''Invalid input'', ''Please choose an output folder.'')]\<rparr>)"
  by (simp add: start_download_def showerror_def Let_def)

lemma start_download_valid:
  "is_youtube_url (strip (url_var a)) \<Longrightarrow> strip (out_var a) \<noteq> [] \<Longrightarrow>
   start_download pf a =
     (case mkdir pf (files a) (Path (strip (out_var a))) of
        Inl e \<Rightarrow> Inl e
      | Inr fs \<Rightarrow>
          Inr (a\<lparr>files := fs, btn_download := disabled, progress_var := 0,
                 status_var := Text (''Starting'' @ ellipsis), note_var := [],
                 threads := threads a @ [(strip (url_var a), strip (out_var a))]\<rparr>))"
  by (simp add: start_download_def Let_def split: sum.splits)



lemma strip_examples:
  "strip '' https://youtu.be/abc123 '' = ''https://youtu.be/abc123''"
  "strip ''/home/u/Downloads'' = ''/home/u/Downloads''"
  by (simp_all add: strip_def isspace_def)

lemma typed_app_fields:
  "url_var typed_app = '' https://youtu.be/abc123 ''"
  "out_var typed_app = ''/home/u/Downloads''"
  "files typed_app = fs_without_ffmpeg"
  "threads typed_app = []" "btn_download typed_app = normal"
  by (simp_all add: typed_app_def example_app_def init_def joinpath_def Path_def
      example_platform_def)

lemma example_url_ok: "is_youtube_url ''https://youtu.be/abc123''"
  by (simp add: is_youtube_url_def lower_def lower_char_def)

lemma start_download_example: "start_download example_platform typed_app = Inr running_app"
  by (simp add: start_download_valid typed_app_fields strip_examples example_url_ok mkdir_def
      Path_def fs_without_ffmpeg_def example_platform_def)
     (simp add: running_app_def typed_app_def example_app_def init_def fs_without_ffmpeg_def)


lemma running_app_more:
  "threads running_app = [(''https://youtu.be/abc123'', ''/home/u/Downloads'')]"
  "files running_app ''/home/u/Downloads'' = Some Dir"
  by (simp_all add: running_app_def)



section \<open>The download state machine\<close>

lemma download_worker_queue:
  assumes "download_worker pf lib url out_dir a = (e, a')"
  shows "\<exists>q. a' = a\<lparr>after_queue := after_queue a @ q\<rparr> \<and> length (filter finishing q) \<le> 1"
proof -
  obtain q where q: "filter finishing q = []"
    and w: "download_worker pf lib url out_dir a =
       (case result (lib (fst (make_ydl_opts pf (files a) url out_dir ui_update ui_note a)) url) of
          Returned info \<Rightarrow>
            (None, a\<lparr>after_queue := after_queue a @ q @
               [Done (''Done: '' @ (case info of None \<Rightarrow> ''Done''
                  | Some i \<Rightarrow> (case i ''title'' of None \<Rightarrow> ''Done'' | Some t \<Rightarrow> t)))]\<rparr>)
        | Raised e \<Rightarrow>
            if is_Exception e
            then (None, a\<lparr>after_queue := after_queue a @ q @ [Error (str e)]\<rparr>)
            else (Some e, a\<lparr>after_queue := after_queue a @ q\<rparr>))"
    using download_worker_cases [of pf lib url out_dir a] by blast
  show ?thesis
  proof (cases "result (lib (fst (make_ydl_opts pf (files a) url out_dir ui_update ui_note a)) url)")
    case (Returned info)
    with w assms obtain m where "a' = a\<lparr>after_queue := after_queue a @ (q @ [Done m])\<rparr>"
      by simp
    then show ?thesis using q by (intro exI [of _ "q @ [Done m]"]) simp
  next
    case (Raised x)
    show ?thesis
    proof (cases "is_Exception x")
      case True
      with w assms Raised have "a' = a\<lparr>after_queue := after_queue a @ (q @ [Error (str x)])\<rparr>"
        by simp
      then show ?thesis using q by (intro exI [of _ "q @ [Error (str x)]"]) simp
    next
      case False
      with w assms Raised have "a' = a\<lparr>after_queue := after_queue a @ q\<rparr>"
        by simp
      then show ?thesis using q by (intro exI [of _ q]) simp
    qed
  qed
qed

lemma start_download_effect:
  assumes "start_download pf a = Inr a'"
  shows "(threads a' = threads a \<and> btn_download a' = btn_download a \<and>
          after_queue a' = after_queue a) \<or>
         (\<exists>t. threads a' = threads a @ [t] \<and> btn_download a' = disabled \<and>
          after_queue a' = after_queue a)"
proof (cases "is_youtube_url (strip (url_var a))")
  case False
  from start_download_invalid_url [OF False, of pf] assms show ?thesis by auto
next
  case u: True
  show ?thesis
  proof (cases "strip (out_var a) = []")
    case True
    from start_download_no_folder [OF u True, of pf] assms show ?thesis by auto
  next
    case False
    with u assms show ?thesis
      by (auto simp: start_download_valid split: sum.splits)
  qed
qed

lemma one_at_a_time_init: "one_at_a_time (init pf home fs)"
  by (simp add: one_at_a_time_def init_def)

lemma one_at_a_time_step:
  assumes "step pf a a'" and "one_at_a_time a"
  shows "one_at_a_time a'"
  using assms
proof (induction rule: step.induct)
  case (edit_url a u)
  then show ?case by (simp add: one_at_a_time_def)
next
  case (pick_folder a folder)
  then show ?case by (simp add: one_at_a_time_def)
next
  case (press a a')
  from start_download_effect [OF press(2)] press(1,3) show ?case
    by (auto simp: one_at_a_time_def)
next
  case (worker_ends url out_dir a lib e a')
  obtain q where q: "a' = a\<lparr>after_queue := after_queue a @ q\<rparr>" "length (filter finishing q) \<le> 1"
    using download_worker_queue [OF worker_ends(2)] by blast
  from worker_ends(1) have ne: "threads a \<noteq> []" by auto
  with worker_ends(3) have b: "btn_download a = disabled"
    by (cases "btn_download a") (auto simp: one_at_a_time_def)
  from ne worker_ends(3) have l: "length (threads a) = 1" "filter finishing (after_queue a) = []"
    by (cases "threads a"; auto simp: one_at_a_time_def)+
  from l(1) worker_ends(1) have t: "threads a = [(url, out_dir)]"
    by (cases "threads a") auto
  show ?case
    using q b l(2) t by (simp add: one_at_a_time_def)
next
  case (idle a f fs)
  then show ?case
    by (cases f) (auto simp: one_at_a_time_def showerror_def split: if_splits)
next
  case (outside a fs')
  then show ?case by (simp add: one_at_a_time_def)
qed

lemma reachable_one_at_a_time: "reachable pf a \<Longrightarrow> one_at_a_time a"
  by (induction rule: reachable.induct) (auto intro: one_at_a_time_init one_at_a_time_step)

lemma step_enables:
  assumes "step pf a a'" "btn_download a = disabled" "btn_download a' = normal"
  shows "\<exists>f fs. after_queue a = f # fs \<and> finishing f \<and> a' = run_call f (a\<lparr>after_queue := fs\<rparr>)"
  using assms
proof (induction rule: step.induct)
  case (press a a')
  then show ?case by simp
next
  case (worker_ends url out_dir a lib e a')
  obtain q where "a' = a\<lparr>after_queue := after_queue a @ q\<rparr>"
    using download_worker_queue [OF worker_ends(2)] by blast
  with worker_ends show ?case by simp
next
  case (idle a f fs)
  then show ?case by (cases f) auto
qed simp_all

lemma step_spawns:
  assumes "step pf a a'" "length (threads a) < length (threads a')"
  shows "btn_download a = normal \<and> btn_download a' = disabled \<and>
         (\<exists>t. threads a' = threads a @ [t])"
  using assms
proof (induction rule: step.induct)
  case (press a a')
  from start_download_effect [OF press(2)] press(1,3) show ?case by auto
next
  case (worker_ends url out_dir a lib e a')
  obtain q where "a' = a\<lparr>after_queue := after_queue a @ q\<rparr>"
    using download_worker_queue [OF worker_ends(2)] by blast
  with worker_ends(3) have "length (threads a) < length (remove1 (url, out_dir) (threads a))"
    by simp
  moreover have "length (remove1 (url, out_dir) (threads a)) \<le> length (threads a)"
    by (simp add: length_remove1)
  ultimately show ?case by simp
next
  case (idle a f fs)
  then show ?case by (cases f) (auto simp: showerror_def)
qed simp_all

text \<open>
  C6. In every reachable state of the application at most one worker thread runs,
  and none while the download button is enabled. A step that starts a thread starts
  from the button enabled and ends with it disabled and that thread the only one. A
  step that takes the button from disabled to enabled is the event loop running a
  queued call of \<open>ui_done\<close> or \<open>ui_error\<close>, and no thread runs before or after it.
\<close>

theorem one_download_at_a_time:
  assumes "reachable pf a"
  shows "length (threads a) \<le> 1 \<and>
         (btn_download a = normal \<longrightarrow> threads a = []) \<and>
         (\<forall>a'. step pf a a' \<and> length (threads a) < length (threads a') \<longrightarrow>
            btn_download a = normal \<and> btn_download a' = disabled \<and>
            (\<exists>t. threads a' = [t])) \<and>
         (\<forall>a'. step pf a a' \<and> btn_download a = disabled \<and> btn_download a' = normal \<longrightarrow>
            threads a = [] \<and> threads a' = [] \<and>
            (\<exists>f fs. after_queue a = f # fs \<and> finishing f \<and>
               a' = run_call f (a\<lparr>after_queue := fs\<rparr>)))"
proof -
  have inv: "one_at_a_time a" using assms by (rule reachable_one_at_a_time)
  have c1: "length (threads a) \<le> 1" using inv by (simp add: one_at_a_time_def)
  have c2: "btn_download a = normal \<longrightarrow> threads a = []" using inv by (simp add: one_at_a_time_def)
  have c3: "\<forall>a'. step pf a a' \<and> length (threads a) < length (threads a') \<longrightarrow>
            btn_download a = normal \<and> btn_download a' = disabled \<and>
            (\<exists>t. threads a' = [t])"
  proof (intro allI impI)
    fix a' assume h: "step pf a a' \<and> length (threads a) < length (threads a')"
    then have h1: "step pf a a'" and h2: "length (threads a) < length (threads a')"
      by simp_all
    have s: "btn_download a = normal \<and> btn_download a' = disabled \<and>
         (\<exists>t. threads a' = threads a @ [t])" by (rule step_spawns [OF h1 h2])
    with c2 have "threads a = []" by simp
    with s show "btn_download a = normal \<and> btn_download a' = disabled \<and>
            (\<exists>t. threads a' = [t])" by simp
  qed
  have c4: "\<forall>a'. step pf a a' \<and> btn_download a = disabled \<and> btn_download a' = normal \<longrightarrow>
            threads a = [] \<and> threads a' = [] \<and>
            (\<exists>f fs. after_queue a = f # fs \<and> finishing f \<and>
               a' = run_call f (a\<lparr>after_queue := fs\<rparr>))"
  proof (intro allI impI)
    fix a' assume h: "step pf a a' \<and> btn_download a = disabled \<and> btn_download a' = normal"
    then obtain f fs where f: "after_queue a = f # fs" "finishing f"
      "a' = run_call f (a\<lparr>after_queue := fs\<rparr>)"
      using step_enables by blast
    from h inv have "one_at_a_time a'" by (blast intro: one_at_a_time_step)
    with h have t': "threads a' = []" by (simp add: one_at_a_time_def)
    from f(1,2) inv have t: "threads a = []" by (simp add: one_at_a_time_def)
    from t t' f show "threads a = [] \<and> threads a' = [] \<and>
            (\<exists>f fs. after_queue a = f # fs \<and> finishing f \<and>
               a' = run_call f (a\<lparr>after_queue := fs\<rparr>))" by blast
  qed
  show ?thesis by (rule conjI [OF c1 conjI [OF c2 conjI [OF c3 c4]]])
qed

lemma reachable_typed_app: "reachable example_platform typed_app"
  unfolding typed_app_def example_app_def
  by (rule reachable.next_step [OF reachable.start step.edit_url])

lemma step_typed_running: "step example_platform typed_app running_app"
  by (rule step.press [OF typed_app_fields(5) start_download_example])

lemma reachable_running_app: "reachable example_platform running_app"
  by (rule reachable.next_step [OF reachable_typed_app step_typed_running])

theorem one_download_at_a_time_witness:
  "reachable example_platform typed_app \<and>
   step example_platform typed_app running_app \<and>
   length (threads typed_app) < length (threads running_app) \<and>
   btn_download typed_app = normal \<and> btn_download running_app = disabled \<and>
   reachable example_platform running_app \<and>
   length (threads running_app) \<le> 1"
proof -
  have l: "length (threads typed_app) < length (threads running_app)"
    by (simp add: typed_app_fields running_app_more)
  from one_download_at_a_time [OF reachable_typed_app]
  have "\<forall>a'. step example_platform typed_app a' \<and>
          length (threads typed_app) < length (threads a') \<longrightarrow>
            btn_download typed_app = normal \<and> btn_download a' = disabled \<and>
            (\<exists>t. threads a' = [t])"
    by (elim conjE)
  with step_typed_running l have d: "btn_download running_app = disabled"
    by (elim allE [of _ running_app]) simp
  from one_download_at_a_time [OF reachable_running_app]
  have m: "length (threads running_app) \<le> 1" by (elim conjE)
  show ?thesis
    by (intro conjI) (rule reachable_typed_app, rule step_typed_running, rule l,
      rule typed_app_fields(5), rule d, rule reachable_running_app, rule m)
qed

section \<open>The format policy\<close>






text \<open>
  The filters of the first two alternatives of the single-file expression demand both
  tracks whatever the names mean; the last alternative, the bare \<open>best\<close>, does so
  exactly when the library's \<open>best\<close> does.
\<close>

lemma filtered_best_requires_both:
  "requires_both_tracks names [(''best'', [''vcodec!=none'', ''acodec!=none'', ''ext=mp4''])]"
  "requires_both_tracks names [(''best'', [''vcodec!=none'', ''acodec!=none''])]"
  by (simp_all add: requires_both_tracks_def has_audio_def has_video_def)

lemma bare_best_requires_both:
  "requires_both_tracks names [(''best'', [])] \<longleftrightarrow> names ''best'' = Both"
  by (auto simp: requires_both_tracks_def has_audio_def has_video_def)




end
